theory Spec2Isabelle
  imports Complex_Main "HOL-Library.Sublist"
begin

section \<open>MobileNet V3 graph builder (mobilenet_v3_keras.py)\<close>

text \<open>
  The builder is modelled over exact numbers: a Python \<open>int\<close> is an \<open>int\<close>, and a
  Python \<open>float\<close> (the width multiplier \<open>alpha\<close>, a squeeze-excite ratio, the product
  \<open>channels * alpha\<close>) is a rational. Rounding of the binary floating-point format,
  infinities and NaN are not part of the model.
\<close>

subsection \<open>Exceptions\<close>

datatype error =
    AssertionError
  | ValueError string
  | ZeroDivisionError
  | IndexError

subsection \<open>Width rounding: \<open>_round_to_multiple_of\<close>\<close>

text \<open>Python's \<open>int(x)\<close> on a float truncates toward zero.\<close>

definition py_int :: "rat \<Rightarrow> int" where
  "py_int x = (if 0 \<le> x then \<lfloor>x\<rfloor> else \<lceil>x\<rceil>)"

text \<open>
  \<^verbatim>\<open>
  def _round_to_multiple_of(val, divisor, round_up_bias=0.9):
      assert 0.0 < round_up_bias < 1.0
      new_val = max(divisor, int(val + divisor / 2) // divisor * divisor)
      return new_val if new_val >= round_up_bias * val else new_val + divisor
  \<close>
  \<open>divisor / 2\<close> is true division and never fails; \<open>// divisor\<close> is floor division on
  integers (HOL's \<open>div\<close> on \<open>int\<close>) and raises ZeroDivisionError for a zero divisor.
\<close>

definition round_to_multiple_of :: "rat \<Rightarrow> int \<Rightarrow> rat \<Rightarrow> error + int" where
  "round_to_multiple_of val divisor round_up_bias =
     (if \<not> (0 < round_up_bias \<and> round_up_bias < 1) then Inl AssertionError
      else if divisor = 0 then Inl ZeroDivisionError
      else
        let new_val = max divisor (py_int (val + of_int divisor / 2) div divisor * divisor)
        in Inr (if of_int new_val \<ge> round_up_bias * val then new_val else new_val + divisor))"

text \<open>The default value of \<open>round_up_bias\<close>.\<close>

definition default_bias :: rat where
  "default_bias = 9 / 10"

subsection \<open>Symbolic tensors and the primitive layers of the tensor library\<close>

text \<open>
  The builder runs on a symbolic input (\<open>keras.Input\<close>): calling a layer records a node
  of the graph. A tensor is therefore the expression that produced it. Initialisers
  and regularisers are the same constants at every layer and are left out.
\<close>

record conv2d =
  conv_filters :: int
  conv_kernel_size :: int
  conv_strides :: int
  conv_padding :: string
  conv_dilation_rate :: int
  conv_use_bias :: bool

record depthwise_conv2d =
  dw_kernel_size :: int
  dw_strides :: int
  dw_padding :: string
  dw_dilation_rate :: int
  dw_use_bias :: bool

record dense =
  dense_units :: int
  dense_hard_swish :: bool

datatype tensor =
    TInput string
  | TConv2D conv2d tensor
  | TDepthwiseConv2D depthwise_conv2d tensor
  | TBatchNormalization tensor
  | TRelu tensor
  | TRelu6 tensor
  | TAddConst tensor rat
  | TDivConst tensor rat
  | TMul tensor tensor
  | TAdd tensor tensor
  | TReduceMean tensor
  | TGlobalAveragePooling2D tensor
  | TFlatten tensor
  | TDense dense tensor
  | TDropout rat tensor

subsection \<open>Activations\<close>

text \<open>\<^verbatim>\<open>hard_sigmoid(x) = tf.nn.relu6(x + 3.0) / 6.0\<close>, \<^verbatim>\<open>hard_swish(x) = hard_sigmoid(x) * x\<close>.\<close>

definition hard_sigmoid :: "tensor \<Rightarrow> tensor" where
  "hard_sigmoid x = TDivConst (TRelu6 (TAddConst x 3)) 6"

definition hard_swish :: "tensor \<Rightarrow> tensor" where
  "hard_swish x = TMul (hard_sigmoid x) x"

definition activation :: "tensor \<Rightarrow> string \<Rightarrow> error + tensor" where
  "activation x name =
     (if name = ''relu'' then Inr (TRelu x)
      else if name = ''hardswish'' then Inr (hard_swish x)
      else Inl (ValueError (''Unsupported activation: '' @ name @ ''.'')))"

subsection \<open>\<open>_SqueezeAndExcitation\<close>\<close>

record SqueezeAndExcitation =
  se_channels :: int
  se_se_ratio :: rat
  se_reduce :: conv2d
  se_expand :: conv2d

definition SqueezeAndExcitation_init :: "int \<Rightarrow> rat \<Rightarrow> error + SqueezeAndExcitation" where
  "SqueezeAndExcitation_init channels se_ratio =
     (if se_ratio \<le> 0
      then Inl (ValueError ''Squeeze and excitation depth ratio must be positive.'')
      else case round_to_multiple_of (of_int channels * se_ratio) 8 default_bias of
        Inl e \<Rightarrow> Inl e
      | Inr reduced_ch \<Rightarrow> Inr
          \<lparr> se_channels = channels,
            se_se_ratio = se_ratio,
            se_reduce = \<lparr> conv_filters = reduced_ch, conv_kernel_size = 1, conv_strides = 1,
              conv_padding = ''same'', conv_dilation_rate = 1, conv_use_bias = True \<rparr>,
            se_expand = \<lparr> conv_filters = channels, conv_kernel_size = 1, conv_strides = 1,
              conv_padding = ''same'', conv_dilation_rate = 1, conv_use_bias = True \<rparr> \<rparr>)"

definition SqueezeAndExcitation_call :: "SqueezeAndExcitation \<Rightarrow> tensor \<Rightarrow> tensor" where
  "SqueezeAndExcitation_call self x =
     (let y = TReduceMean x;
          y = TRelu (TConv2D (se_reduce self) y)
      in TMul (hard_sigmoid (TConv2D (se_expand self) y)) x)"

subsection \<open>\<open>_ConvBnActivationBlock\<close>\<close>

text \<open>The \<open>padding\<close> argument is annotated \<open>str\<close>; the stem passes the integer 1.\<close>

datatype padding_arg = PadStr string | PadInt int

record ConvBnActivationBlock =
  cba_out_ch :: int
  cba_kernel_size :: int
  cba_stride :: int
  cba_padding :: padding_arg
  cba_dilation :: int
  cba_activation :: string
  cba_conv :: conv2d

definition ConvBnActivationBlock_init ::
  "int \<Rightarrow> int \<Rightarrow> int \<Rightarrow> padding_arg \<Rightarrow> int \<Rightarrow> string \<Rightarrow> ConvBnActivationBlock" where
  "ConvBnActivationBlock_init out_ch kernel_size stride padding dilation act =
     \<lparr> cba_out_ch = out_ch,
       cba_kernel_size = kernel_size,
       cba_stride = stride,
       cba_padding = padding,
       cba_dilation = dilation,
       cba_activation = act,
       cba_conv = \<lparr> conv_filters = out_ch, conv_kernel_size = kernel_size,
         conv_strides = stride, conv_padding = ''same'', conv_dilation_rate = dilation,
         conv_use_bias = False \<rparr> \<rparr>"

definition ConvBnActivationBlock_call :: "ConvBnActivationBlock \<Rightarrow> tensor \<Rightarrow> error + tensor" where
  "ConvBnActivationBlock_call self x =
     (let x = TConv2D (cba_conv self) x;
          x = TBatchNormalization x
      in activation x (cba_activation self))"

subsection \<open>\<open>_MobileNetV3Block\<close>\<close>

text \<open>
  The sub-layers of a block. The \<open>Lambda\<close> layers close over \<open>self.activation\<close>, which
  is assigned once in the constructor; the layer carries that tag.
\<close>

datatype layer =
    Conv2D conv2d
  | DepthwiseConv2D depthwise_conv2d
  | BatchNormalization
  | LambdaActivation string
  | SE SqueezeAndExcitation

record MobileNetV3Block =
  mb_in_ch :: int
  mb_exp_ch :: int
  mb_out_ch :: int
  mb_kernel_size :: int
  mb_stride :: int
  mb_dilation :: int
  mb_se_ratio :: "rat option"
  mb_activation :: string
  mb_allow_residual :: bool
  mb_apply_residual :: bool
  mb_layers :: "layer list"
  mb_name :: "string option"

definition pointwise :: "int \<Rightarrow> conv2d" where
  "pointwise ch = \<lparr> conv_filters = ch, conv_kernel_size = 1, conv_strides = 1,
     conv_padding = ''same'', conv_dilation_rate = 1, conv_use_bias = False \<rparr>"

definition MobileNetV3Block_init ::
  "int \<Rightarrow> int \<Rightarrow> int \<Rightarrow> int \<Rightarrow> int \<Rightarrow> int \<Rightarrow> rat option \<Rightarrow> string \<Rightarrow> bool \<Rightarrow> string option
     \<Rightarrow> error + MobileNetV3Block" where
  "MobileNetV3Block_init in_ch exp_ch out_ch kernel_size stride dilation se_ratio act
       allow_residual name =
     (let layers0 =
            (if in_ch \<noteq> exp_ch
             then [Conv2D (pointwise exp_ch), BatchNormalization, LambdaActivation act]
             else []);
          layers1 = layers0 @
            [DepthwiseConv2D \<lparr> dw_kernel_size = kernel_size, dw_strides = stride,
               dw_padding = ''same'', dw_dilation_rate = dilation, dw_use_bias = False \<rparr>,
             BatchNormalization, LambdaActivation act]
      in case (case se_ratio of
                 None \<Rightarrow> Inr layers1
               | Some r \<Rightarrow> (case SqueezeAndExcitation_init exp_ch r of
                                Inl e \<Rightarrow> Inl e
                              | Inr se \<Rightarrow> Inr (layers1 @ [SE se]))) of
           Inl e \<Rightarrow> Inl e
         | Inr layers2 \<Rightarrow> Inr
             \<lparr> mb_in_ch = in_ch, mb_exp_ch = exp_ch, mb_out_ch = out_ch,
               mb_kernel_size = kernel_size, mb_stride = stride, mb_dilation = dilation,
               mb_se_ratio = se_ratio, mb_activation = act,
               mb_allow_residual = allow_residual,
               mb_apply_residual = (allow_residual \<and> (in_ch = out_ch \<and> stride = 1)),
               mb_layers = layers2 @ [Conv2D (pointwise out_ch), BatchNormalization],
               mb_name = name \<rparr>)"

fun apply_layer :: "layer \<Rightarrow> tensor \<Rightarrow> error + tensor" where
  "apply_layer (Conv2D c) x = Inr (TConv2D c x)"
| "apply_layer (DepthwiseConv2D c) x = Inr (TDepthwiseConv2D c x)"
| "apply_layer BatchNormalization x = Inr (TBatchNormalization x)"
| "apply_layer (LambdaActivation name) x = activation x name"
| "apply_layer (SE se) x = Inr (SqueezeAndExcitation_call se x)"

text \<open>\<^verbatim>\<open>for layer in self.layers: x = layer(x)\<close>\<close>

fun run_layers :: "layer list \<Rightarrow> tensor \<Rightarrow> error + tensor" where
  "run_layers [] x = Inr x"
| "run_layers (l # ls) x =
     (case apply_layer l x of Inl e \<Rightarrow> Inl e | Inr y \<Rightarrow> run_layers ls y)"

definition MobileNetV3Block_call :: "MobileNetV3Block \<Rightarrow> tensor \<Rightarrow> error + tensor" where
  "MobileNetV3Block_call self x =
     (let input = x
      in case run_layers (mb_layers self) x of
           Inl e \<Rightarrow> Inl e
         | Inr x \<Rightarrow> Inr (if mb_apply_residual self then TAdd x input else x))"

subsection \<open>The stage tables\<close>

text \<open>
  A row of a stage table is the eight-element list
  \<open>[in_ch, exp_ch, out_ch, kernel_size, stride, dilation, se_ratio, activation]\<close>.
  The registry \<open>conf.CONFIG\<close> lives in the module \<open>mobilenet_v3_configs\<close>; it is a
  parameter here, a dictionary from variant names to tables whose rows are distinct
  list objects.
\<close>

record row =
  row_in_ch :: int
  row_exp_ch :: int
  row_out_ch :: int
  row_kernel_size :: int
  row_stride :: int
  row_dilation :: int
  row_se_ratio :: "rat option"
  row_activation :: string

type_synonym registry = "string \<rightharpoonup> row list"

text \<open>
  The scaling loop assigns \<open>c[0]\<close>, \<open>c[1]\<close>, \<open>c[2]\<close> of each row in place. The result is
  the table as the loop leaves it, with the exception that stopped it, if any.
\<close>

definition scale_row :: "rat \<Rightarrow> row \<Rightarrow> row \<times> error option" where
  "scale_row alpha c =
     (case round_to_multiple_of (of_int (row_in_ch c) * alpha) 8 default_bias of
        Inl e \<Rightarrow> (c, Some e)
      | Inr v0 \<Rightarrow>
          let c = c\<lparr> row_in_ch := v0 \<rparr>
          in case round_to_multiple_of (of_int (row_exp_ch c) * alpha) 8 default_bias of
               Inl e \<Rightarrow> (c, Some e)
             | Inr v1 \<Rightarrow>
                 let c = c\<lparr> row_exp_ch := v1 \<rparr>
                 in case round_to_multiple_of (of_int (row_out_ch c) * alpha) 8 default_bias of
                      Inl e \<Rightarrow> (c, Some e)
                    | Inr v2 \<Rightarrow> (c\<lparr> row_out_ch := v2 \<rparr>, None))"

fun scale_config :: "rat \<Rightarrow> row list \<Rightarrow> row list \<times> error option" where
  "scale_config alpha [] = ([], None)"
| "scale_config alpha (c # cs) =
     (case scale_row alpha c of
        (c', Some e) \<Rightarrow> (c' # cs, Some e)
      | (c', None) \<Rightarrow> (case scale_config alpha cs of (cs', r) \<Rightarrow> (c' # cs', r)))"

subsection \<open>\<open>create_mobilenet_v3\<close>\<close>

text \<open>Decimal rendering of the loop index in \<^verbatim>\<open>f"bottleneck{idx}"\<close>.\<close>

fun str_nat :: "nat \<Rightarrow> string" where
  "str_nat n =
     (if n < 10 then [''0123456789'' ! n]
      else str_nat (n div 10) @ [''0123456789'' ! (n mod 10)])"

declare str_nat.simps [simp del]

text \<open>
  The bottleneck loop. The call passes \<open>in_ch, exp_ch, out_ch, kernel_size, stride\<close>
  and the keywords \<open>se_ratio\<close>, \<open>activation\<close>, \<open>name\<close>; \<open>dilation\<close> and
  \<open>allow_residual\<close> take the constructor's defaults 1 and True.
\<close>

fun build_bottlenecks ::
  "nat \<Rightarrow> row list \<Rightarrow> tensor \<Rightarrow> error + (MobileNetV3Block list \<times> tensor)" where
  "build_bottlenecks idx [] x = Inr ([], x)"
| "build_bottlenecks idx (c # cs) x =
     (case MobileNetV3Block_init (row_in_ch c) (row_exp_ch c) (row_out_ch c)
             (row_kernel_size c) (row_stride c) 1 (row_se_ratio c) (row_activation c)
             True (Some (''bottleneck'' @ str_nat idx)) of
        Inl e \<Rightarrow> Inl e
      | Inr b \<Rightarrow>
          (case MobileNetV3Block_call b x of
             Inl e \<Rightarrow> Inl e
           | Inr y \<Rightarrow>
               (case build_bottlenecks (Suc idx) cs y of
                  Inl e \<Rightarrow> Inl e
                | Inr (bs, z) \<Rightarrow> Inr (b # bs, z))))"

text \<open>Python's \<open>sub in s\<close> on strings.\<close>

fun contains :: "string \<Rightarrow> string \<Rightarrow> bool" where
  "contains sub [] = (sub = [])"
| "contains sub (c # cs) = (prefix sub (c # cs) \<or> contains sub cs)"

text \<open>The choice of the width of the last convolution (the tail).\<close>

definition last_conv_ch :: "string \<Rightarrow> rat \<Rightarrow> error + int" where
  "last_conv_ch model_type alpha =
     (let shallow_tail = list_ex (\<lambda>x. contains x model_type) [''_segmentation'', ''_detection'']
      in case (if contains ''large'' model_type
               then Inr (if \<not> shallow_tail then 960 else 480)
               else if contains ''small'' model_type
               then Inr (if \<not> shallow_tail then 576 else 288)
               else Inl (ValueError ''Invalid model type'')) of
           Inl e \<Rightarrow> Inl e
         | Inr ch \<Rightarrow>
             if alpha < 1 then round_to_multiple_of (of_int ch * alpha) 8 default_bias
             else Inr ch)"

datatype keras_layer =
    L_ConvBnActivationBlock ConvBnActivationBlock
  | L_MobileNetV3Block MobileNetV3Block
  | L_GlobalAveragePooling2D
  | L_Flatten
  | L_Dense dense
  | L_Dropout rat

record keras_model =
  model_inputs :: tensor
  model_outputs :: tensor
  model_layers :: "keras_layer list"

text \<open>Everything after the scaling loop, on the scaled table.\<close>

definition build_graph ::
  "row list \<Rightarrow> tensor \<Rightarrow> rat \<Rightarrow> int \<Rightarrow> rat \<Rightarrow> string \<Rightarrow> bool \<Rightarrow> error + keras_model" where
  "build_graph config input alpha num_classes dropout model_type has_classifier =
     (case config of
        [] \<Rightarrow> Inl IndexError
      | c0 # _ \<Rightarrow>
          let stem = ConvBnActivationBlock_init (row_in_ch c0) 3 2 (PadInt 1) 1 ''hardswish''
          in case ConvBnActivationBlock_call stem input of
               Inl e \<Rightarrow> Inl e
             | Inr x \<Rightarrow>
          (case build_bottlenecks 0 config x of
               Inl e \<Rightarrow> Inl e
             | Inr (blocks, x) \<Rightarrow>
          (case last_conv_ch model_type alpha of
               Inl e \<Rightarrow> Inl e
             | Inr ch \<Rightarrow>
          let tail = ConvBnActivationBlock_init ch 1 1 (PadStr ''same'') 1 ''hardswish''
          in case ConvBnActivationBlock_call tail x of
               Inl e \<Rightarrow> Inl e
             | Inr x \<Rightarrow>
          let d1 = \<lparr> dense_units = 1280, dense_hard_swish = True \<rparr>;
              d2 = \<lparr> dense_units = num_classes, dense_hard_swish = False \<rparr>;
              head = (if has_classifier
                      then [L_GlobalAveragePooling2D, L_Flatten, L_Dense d1,
                            L_Dropout dropout, L_Dense d2]
                      else []);
              output = (if has_classifier
                        then TDense d2 (TDropout dropout (TDense d1
                               (TFlatten (TGlobalAveragePooling2D x))))
                        else x)
          in Inr \<lparr> model_inputs = input, model_outputs = output,
                   model_layers = L_ConvBnActivationBlock stem # map L_MobileNetV3Block blocks
                     @ L_ConvBnActivationBlock tail # head \<rparr>)))"

text \<open>
  The builder returns the registry as the call leaves it, and the model or the
  exception raised.
\<close>

definition create_mobilenet_v3 ::
  "registry \<Rightarrow> tensor \<Rightarrow> rat \<Rightarrow> int \<Rightarrow> rat \<Rightarrow> string \<Rightarrow> bool
     \<Rightarrow> registry \<times> (error + keras_model)" where
  "create_mobilenet_v3 CONFIG input alpha num_classes dropout model_type has_classifier =
     (if \<not> alpha > 0 then (CONFIG, Inl AssertionError)
      else if \<not> num_classes > 1 then (CONFIG, Inl AssertionError)
      else case CONFIG model_type of
        None \<Rightarrow> (CONFIG, Inl AssertionError)
      | Some config0 \<Rightarrow>
          (case scale_config alpha config0 of
             (config, Some e) \<Rightarrow> (CONFIG(model_type \<mapsto> config), Inl e)
           | (config, None) \<Rightarrow>
               (CONFIG(model_type \<mapsto> config),
                build_graph config input alpha num_classes dropout model_type has_classifier)))"

subsection \<open>A sample registry\<close>

text \<open>
  A two-row table in the shape of the stage tables, registered under \<open>small\<close>; the
  second row asks for dilation 2. It serves as a concrete input below.
\<close>

definition demo_rows :: "row list" where
  "demo_rows =
     [\<lparr> row_in_ch = 16, row_exp_ch = 16, row_out_ch = 16, row_kernel_size = 3, row_stride = 2,
        row_dilation = 1, row_se_ratio = Some (1 / 4), row_activation = ''relu'' \<rparr>,
      \<lparr> row_in_ch = 16, row_exp_ch = 72, row_out_ch = 24, row_kernel_size = 3, row_stride = 1,
        row_dilation = 2, row_se_ratio = None, row_activation = ''hardswish'' \<rparr>]"

definition demo_CONFIG :: registry where
  "demo_CONFIG = [''small'' \<mapsto> demo_rows]"

text \<open>
  A table whose only row carries an unsupported activation tag and a squeeze-excite
  ratio of zero.
\<close>

definition bad_rows :: "row list" where
  "bad_rows =
     [\<lparr> row_in_ch = 16, row_exp_ch = 16, row_out_ch = 16, row_kernel_size = 3, row_stride = 2,
        row_dilation = 1, row_se_ratio = Some 0, row_activation = ''tanh'' \<rparr>]"

section \<open>Properties of the width rounding\<close>




lemma round_result:
  assumes "0 < d" and "0 < b" and "b < 1"
  shows "\<exists>r. round_to_multiple_of v d b = Inr r \<and> d dvd r \<and> d \<le> r"
  using assms by (auto simp: round_to_multiple_of_def Let_def max_def)

lemma round8_fixpoint:
  assumes "8 dvd r" and "8 \<le> r"
  shows "round_to_multiple_of (of_int r) 8 default_bias = Inr r"
proof -
  from assms obtain k where k: "r = 8 * k" by (auto simp: dvd_def)
  with assms have kpos: "1 \<le> k" by simp
  have "(of_int r :: rat) + of_int 8 / 2 = of_int (r + 4)" by simp
  then have "py_int (of_int r + of_int 8 / 2) = r + 4"
    using assms by (simp add: py_int_def)
  moreover have "(r + 4) div 8 = k" using k by simp
  ultimately have c: "py_int (of_int r + of_int 8 / 2) div 8 * 8 = r" using k by simp
  have "(9 / 10 :: rat) * of_int r \<le> of_int r" using assms by simp
  then show ?thesis
    using assms unfolding round_to_multiple_of_def Let_def c
    by (simp add: default_bias_def)
qed




text \<open>
  Claim C8. For every value and every positive divisor, the result (default bias) is a
  positive multiple of the divisor. The divisor has to be positive: with divisor \<open>-8\<close>
  the value 10 is sent to 0, and a zero divisor raises ZeroDivisionError.
\<close>

theorem C8_positive_multiple:
  "0 < d \<Longrightarrow> \<exists>r. round_to_multiple_of v d default_bias = Inr r \<and> 0 < r \<and> d dvd r"
proof -
  assume d: "0 < d"
  have "0 < default_bias" "default_bias < 1" by (simp_all add: default_bias_def)
  with d obtain r where "round_to_multiple_of v d default_bias = Inr r" "d dvd r" "d \<le> r"
    using round_result by blast
  with d show ?thesis by auto
qed

theorem C8_positive_multiple_witness:
  "(0::int) < 8 \<and> (\<exists>r. round_to_multiple_of 35 8 default_bias = Inr r \<and> 0 < r \<and> 8 dvd r)"
  using C8_positive_multiple [of 8 35] by simp

theorem C8_counterexample:
  "round_to_multiple_of 10 (- 8) default_bias = Inr 0
   \<and> round_to_multiple_of 10 0 default_bias = Inl ZeroDivisionError"
  by code_simp

text \<open>
  Claim C9. Rounding to a multiple of 8 is idempotent: the function always returns, and
  applying it to its own result returns that result again.
\<close>

theorem C9_round8_idempotent:
  "\<exists>r. round_to_multiple_of v 8 default_bias = Inr r
       \<and> round_to_multiple_of (of_int r) 8 default_bias = Inr r"
proof -
  have "0 < default_bias" "default_bias < 1" by (simp_all add: default_bias_def)
  then obtain r where r: "round_to_multiple_of v 8 default_bias = Inr r" "8 dvd r" "8 \<le> r"
    using round_result [of 8 default_bias v] by auto
  then show ?thesis using round8_fixpoint by blast
qed

text \<open>
  Claim C6. For a channel count of at least 1 and a positive ratio, the constructor of
  the squeeze-and-excitation module succeeds, and the filter count of its reducing
  convolution, \<open>_round_to_multiple_of(channels * se_ratio, 8)\<close>, is a multiple of 8 and
  at least 8.
\<close>

theorem C6_se_reduced_channels:
  "1 \<le> C \<Longrightarrow> 0 < r \<Longrightarrow>
     \<exists>se. SqueezeAndExcitation_init C r = Inr se
        \<and> Inr (conv_filters (se_reduce se)) = round_to_multiple_of (of_int C * r) 8 default_bias
        \<and> 8 dvd conv_filters (se_reduce se) \<and> 8 \<le> conv_filters (se_reduce se)"
proof -
  assume "1 \<le> C" and r: "0 < r"
  have "0 < default_bias" "default_bias < 1" by (simp_all add: default_bias_def)
  then obtain n where n: "round_to_multiple_of (of_int C * r) 8 default_bias = Inr n"
      "8 dvd n" "8 \<le> n"
    using round_result [of 8 default_bias "of_int C * r"] by auto
  with r show ?thesis by (simp add: SqueezeAndExcitation_init_def)
qed

theorem C6_se_reduced_channels_witness:
  "(1::int) \<le> 16 \<and> (0::rat) < 1 / 4
   \<and> (\<exists>se. SqueezeAndExcitation_init 16 (1 / 4) = Inr se
        \<and> Inr (conv_filters (se_reduce se)) = round_to_multiple_of (of_int 16 * (1 / 4)) 8 default_bias
        \<and> 8 dvd conv_filters (se_reduce se) \<and> 8 \<le> conv_filters (se_reduce se))"
  using C6_se_reduced_channels [of 16 "1 / 4"] by simp

section \<open>Properties of the blocks\<close>

text \<open>
  Claim C5. A block built with \<open>allow_residual\<close>, \<open>in_ch\<close>, \<open>out_ch\<close> and \<open>stride\<close> returns
  the output of its layer stack (which ends in the linear projection) added to its own
  input exactly when \<open>allow_residual\<close> holds, \<open>in_ch = out_ch\<close> and \<open>stride = 1\<close>; in every
  other case it returns the output of the stack itself. An exception of the stack is
  passed on.
\<close>

theorem C5_residual_condition:
  "MobileNetV3Block_init in_ch exp_ch out_ch kernel_size stride dilation se_ratio act
       allow_residual name = Inr b \<Longrightarrow>
   MobileNetV3Block_call b x =
     (case run_layers (mb_layers b) x of
        Inl e \<Rightarrow> Inl e
      | Inr y \<Rightarrow> Inr (if allow_residual \<and> in_ch = out_ch \<and> stride = 1 then TAdd y x else y))"
  by (auto simp: MobileNetV3Block_init_def MobileNetV3Block_call_def Let_def
           split: option.splits sum.splits if_splits)

theorem C5_residual_condition_witness:
  "\<exists>b y. MobileNetV3Block_init 16 16 16 3 1 1 None ''relu'' True None = Inr b
     \<and> run_layers (mb_layers b) (TInput ''x'') = Inr y
     \<and> MobileNetV3Block_call b (TInput ''x'') = Inr (TAdd y (TInput ''x''))"
proof -
  obtain b where b: "MobileNetV3Block_init 16 16 16 3 1 1 None ''relu'' True None = Inr b"
    by (auto simp: MobileNetV3Block_init_def)
  then obtain y where y: "run_layers (mb_layers b) (TInput ''x'') = Inr y"
    by (auto simp: MobileNetV3Block_init_def activation_def)
  show ?thesis
    using C5_residual_condition [OF b, of "TInput ''x''"] b y by simp
qed

text \<open>
  Claim C10. The \<open>padding\<close> argument of the Conv-Norm-Activation block does not reach
  the graph: the convolution is built with padding \<open>same\<close> whatever is passed, so two
  blocks that differ in that argument only have the same convolution and produce the
  same output node.
\<close>

theorem C10_padding_ignored:
  "cba_conv (ConvBnActivationBlock_init out_ch kernel_size stride padding dilation act)
     = cba_conv (ConvBnActivationBlock_init out_ch kernel_size stride padding' dilation act)
   \<and> conv_padding (cba_conv (ConvBnActivationBlock_init out_ch kernel_size stride padding dilation act))
     = ''same''
   \<and> ConvBnActivationBlock_call
        (ConvBnActivationBlock_init out_ch kernel_size stride padding dilation act) x
     = ConvBnActivationBlock_call
        (ConvBnActivationBlock_init out_ch kernel_size stride padding' dilation act) x"
  by (simp add: ConvBnActivationBlock_init_def ConvBnActivationBlock_call_def)

section \<open>Properties of the builder\<close>

subsection \<open>Where an exception must come from\<close>

text \<open>
  A layer stack that returns has met supported activation tags only, and a block whose
  constructor returns was given a positive squeeze-excite ratio, if any.
\<close>

lemma activation_Inr:
  "activation x name = Inr y \<Longrightarrow> name = ''relu'' \<or> name = ''hardswish''"
  by (auto simp: activation_def split: if_splits)

lemma run_layers_lambda:
  "run_layers ls x = Inr y \<Longrightarrow> LambdaActivation a \<in> set ls
     \<Longrightarrow> a = ''relu'' \<or> a = ''hardswish''"
proof (induction ls arbitrary: x)
  case Nil
  then show ?case by simp
next
  case (Cons l ls)
  from Cons.prems(1) obtain z where z: "apply_layer l x = Inr z" "run_layers ls z = Inr y"
    by (auto split: sum.splits)
  show ?case
  proof (cases "l = LambdaActivation a")
    case True
    with z(1) show ?thesis by (auto dest: activation_Inr)
  next
    case False
    with Cons.prems(2) have "LambdaActivation a \<in> set ls" by simp
    with Cons.IH z(2) show ?thesis by blast
  qed
qed

lemma block_init_layers:
  "MobileNetV3Block_init in_ch exp_ch out_ch kernel_size stride dilation se_ratio act
       allow_residual name = Inr b
   \<Longrightarrow> LambdaActivation act \<in> set (mb_layers b)"
  by (auto simp: MobileNetV3Block_init_def Let_def split: option.splits sum.splits)

lemma block_init_se_ratio:
  "MobileNetV3Block_init in_ch exp_ch out_ch kernel_size stride dilation (Some r) act
       allow_residual name = Inr b
   \<Longrightarrow> 0 < r"
  by (auto simp: MobileNetV3Block_init_def SqueezeAndExcitation_init_def Let_def
           split: option.splits sum.splits if_splits)

lemma block_call_activation:
  assumes "MobileNetV3Block_init in_ch exp_ch out_ch kernel_size stride dilation se_ratio act
       allow_residual name = Inr b"
    and "MobileNetV3Block_call b x = Inr y"
  shows "act = ''relu'' \<or> act = ''hardswish''"
proof -
  from assms(2) obtain z where "run_layers (mb_layers b) x = Inr z"
    by (auto simp: MobileNetV3Block_call_def split: sum.splits)
  with block_init_layers [OF assms(1)] show ?thesis
    by (rule run_layers_lambda [rotated])
qed

lemma build_bottlenecks_rows:
  "build_bottlenecks idx cs x = Inr res \<Longrightarrow> c \<in> set cs
     \<Longrightarrow> (row_activation c = ''relu'' \<or> row_activation c = ''hardswish'')
         \<and> (\<forall>r. row_se_ratio c = Some r \<longrightarrow> 0 < r)"
proof (induction cs arbitrary: idx x res)
  case Nil
  then show ?case by simp
next
  case (Cons c' cs)
  from Cons.prems(1) obtain b y res' where
      b: "MobileNetV3Block_init (row_in_ch c') (row_exp_ch c') (row_out_ch c')
             (row_kernel_size c') (row_stride c') 1 (row_se_ratio c') (row_activation c')
             True (Some (''bottleneck'' @ str_nat idx)) = Inr b"
    and y: "MobileNetV3Block_call b x = Inr y"
    and r: "build_bottlenecks (Suc idx) cs y = Inr res'"
    by (auto split: sum.splits)
  show ?case
  proof (cases "c = c'")
    case True
    have "row_activation c' = ''relu'' \<or> row_activation c' = ''hardswish''"
      using b y by (rule block_call_activation)
    moreover have "\<forall>r. row_se_ratio c' = Some r \<longrightarrow> 0 < r"
      using b by (auto dest: block_init_se_ratio)
    ultimately show ?thesis using True by simp
  next
    case False
    with Cons.prems(2) have "c \<in> set cs" by simp
    with Cons.IH r show ?thesis by blast
  qed
qed

text \<open>
  The scaling loop writes the three channel fields only.
\<close>

lemma scale_row_fields:
  "row_activation (fst (scale_row alpha c)) = row_activation c"
  "row_se_ratio (fst (scale_row alpha c)) = row_se_ratio c"
  by (auto simp: scale_row_def Let_def split: sum.splits)

lemma scale_config_fields:
  "map row_activation (fst (scale_config alpha cs)) = map row_activation cs"
  "map row_se_ratio (fst (scale_config alpha cs)) = map row_se_ratio cs"
proof (induction cs)
  case Nil
  { case 1 show ?case by simp }
  { case 2 show ?case by simp }
next
  case (Cons c cs)
  { case 1
    show ?case using Cons(1) scale_row_fields(1) [of alpha c]
      by (auto split: prod.splits option.splits) }
  { case 2
    show ?case using Cons(2) scale_row_fields(2) [of alpha c]
      by (auto split: prod.splits option.splits) }
qed

lemma build_graph_rows:
  assumes "build_graph config input alpha num_classes dropout model_type has_classifier = Inr net"
    and "c \<in> set config"
  shows "(row_activation c = ''relu'' \<or> row_activation c = ''hardswish'')
         \<and> (\<forall>r. row_se_ratio c = Some r \<longrightarrow> 0 < r)"
proof -
  from assms(1) obtain x res where "build_bottlenecks 0 config x = Inr res"
    by (auto simp: build_graph_def Let_def split: list.splits sum.splits prod.splits)
  then show ?thesis using assms(2) by (rule build_bottlenecks_rows)
qed

lemma build_graph_variant:
  assumes "build_graph config input alpha num_classes dropout model_type has_classifier = Inr net"
  shows "contains ''large'' model_type \<or> contains ''small'' model_type"
proof -
  from assms obtain ch where "last_conv_ch model_type alpha = Inr ch"
    by (auto simp: build_graph_def Let_def split: list.splits sum.splits prod.splits)
  then show ?thesis
    by (auto simp: last_conv_ch_def Let_def split: if_splits)
qed

lemma create_Inr:
  assumes "snd (create_mobilenet_v3 CONFIG input alpha num_classes dropout model_type
             has_classifier) = Inr net"
  shows "0 < alpha \<and> 1 < num_classes \<and>
         (\<exists>config0. CONFIG model_type = Some config0
            \<and> build_graph (fst (scale_config alpha config0)) input alpha num_classes dropout
                 model_type has_classifier = Inr net)"
  using assms
  by (auto simp: create_mobilenet_v3_def split: if_splits option.splits prod.splits)

subsection \<open>The stage table and the bottleneck stack\<close>

text \<open>
  The registry after a call that passes the three assertions holds the scaled table
  under the variant's name.
\<close>

lemma create_registry:
  "0 < alpha \<Longrightarrow> 1 < num_classes \<Longrightarrow> CONFIG model_type = Some config0 \<Longrightarrow>
   fst (create_mobilenet_v3 CONFIG input alpha num_classes dropout model_type has_classifier)
     = CONFIG(model_type \<mapsto> fst (scale_config alpha config0))"
  by (auto simp: create_mobilenet_v3_def split: prod.splits option.splits)

text \<open>
  Claim C1. The claim asks that the registry entry be the same before and after a build.
  The builder scales the rows of the registered table where they are: on the sample
  registry, a build with multiplier 1/2 leaves the expanded channels 8 and 40 where 16
  and 72 stood, and a second build with the same multiplier scales them again, to 8
  and 24.
\<close>

theorem C1_shared_table_mutated:
  "map_option (map row_exp_ch) (demo_CONFIG ''small'') = Some [16, 72]
 \<and> map_option (map row_exp_ch)
      (fst (create_mobilenet_v3 demo_CONFIG (TInput ''input'') (1 / 2) 1000 (1 / 5)
              ''small'' True) ''small'') = Some [8, 40]
 \<and> map_option (map row_exp_ch)
      (fst (create_mobilenet_v3
              (fst (create_mobilenet_v3 demo_CONFIG (TInput ''input'') (1 / 2) 1000 (1 / 5)
                      ''small'' True))
              (TInput ''input'') (1 / 2) 1000 (1 / 5) ''small'' True) ''small'') = Some [8, 24]"
  by code_simp

lemma block_init_fields:
  assumes "MobileNetV3Block_init in_ch exp_ch out_ch kernel_size stride dilation se_ratio act
       allow_residual name = Inr b"
  shows "mb_in_ch b = in_ch" "mb_exp_ch b = exp_ch" "mb_out_ch b = out_ch"
    "mb_kernel_size b = kernel_size" "mb_stride b = stride" "mb_dilation b = dilation"
    "mb_se_ratio b = se_ratio" "mb_activation b = act" "mb_allow_residual b = allow_residual"
    "mb_name b = name"
  using assms
  by (auto simp: MobileNetV3Block_init_def Let_def split: option.splits sum.splits)

text \<open>
  What the bottleneck loop emits: one block per row, in order, with the row's channels,
  kernel size, stride, squeeze-excite ratio and activation, named \<open>bottleneck\<close> followed
  by the index; the dilation of every block is the constructor's default 1.
\<close>

lemma bottleneck_stack_parameters:
  "build_bottlenecks idx cs x = Inr (bs, y) \<Longrightarrow>
     map mb_in_ch bs = map row_in_ch cs
   \<and> map mb_exp_ch bs = map row_exp_ch cs
   \<and> map mb_out_ch bs = map row_out_ch cs
   \<and> map mb_kernel_size bs = map row_kernel_size cs
   \<and> map mb_stride bs = map row_stride cs
   \<and> map mb_se_ratio bs = map row_se_ratio cs
   \<and> map mb_activation bs = map row_activation cs
   \<and> map mb_dilation bs = replicate (length cs) 1
   \<and> map mb_name bs = map (\<lambda>i. Some (''bottleneck'' @ str_nat i)) [idx ..< idx + length cs]"
proof (induction cs arbitrary: idx x bs y)
  case Nil
  then show ?case by simp
next
  case (Cons c cs)
  from Cons.prems obtain b z bs' where
      b: "MobileNetV3Block_init (row_in_ch c) (row_exp_ch c) (row_out_ch c)
             (row_kernel_size c) (row_stride c) 1 (row_se_ratio c) (row_activation c)
             True (Some (''bottleneck'' @ str_nat idx)) = Inr b"
    and r: "build_bottlenecks (Suc idx) cs z = Inr (bs', y)"
    and bs: "bs = b # bs'"
    by (auto split: sum.splits prod.splits)
  have "idx < idx + length (c # cs)" by simp
  then have "[idx ..< idx + length (c # cs)] = idx # [Suc idx ..< idx + length (c # cs)]"
    by (rule upt_conv_Cons)
  moreover have "idx + length (c # cs) = Suc idx + length cs" by simp
  ultimately have u: "[idx ..< idx + length (c # cs)] = idx # [Suc idx ..< Suc idx + length cs]"
    by (simp only:)
  show ?case
    unfolding bs u using Cons.IH [OF r] block_init_fields [OF b] by simp
qed

text \<open>
  Claim C2. The claim asks that each block be configured with its row's parameters,
  dilation included. The loop unpacks the row's dilation and does not pass it on: the
  second row of the sample table asks for dilation 2 and its block is built with
  dilation 1.
\<close>

theorem C2_dilation_not_passed:
  "map row_dilation demo_rows = [1, 2]
 \<and> map_sum id (map mb_dilation \<circ> fst) (build_bottlenecks 0 demo_rows (TInput ''input''))
     = Inr [1, 1]"
  by code_simp

subsection \<open>The tail\<close>

text \<open>
  A model that is returned has, after the stem and the bottleneck blocks, a tail block
  (kernel 1, stride 1, hard-swish) whose width is the one selected from the variant name.
\<close>

lemma build_graph_tail:
  assumes "build_graph config input alpha num_classes dropout model_type has_classifier = Inr net"
  shows "\<exists>ch stem blocks head.
           last_conv_ch model_type alpha = Inr ch
         \<and> model_layers net =
             L_ConvBnActivationBlock stem # map L_MobileNetV3Block blocks
               @ L_ConvBnActivationBlock
                   (ConvBnActivationBlock_init ch 1 1 (PadStr ''same'') 1 ''hardswish'') # head"
proof -
  from assms obtain c0 cs where config: "config = c0 # cs"
    by (cases config) (auto simp: build_graph_def)
  from assms config obtain x where
    x: "ConvBnActivationBlock_call
          (ConvBnActivationBlock_init (row_in_ch c0) 3 2 (PadInt 1) 1 ''hardswish'') input = Inr x"
    by (auto simp: build_graph_def Let_def split: sum.splits)
  from assms config x obtain blocks y where
    bs: "build_bottlenecks 0 (c0 # cs) x = Inr (blocks, y)"
    by (auto simp: build_graph_def Let_def simp del: build_bottlenecks.simps
             split: sum.splits prod.splits)
  from assms config x bs obtain ch where ch: "last_conv_ch model_type alpha = Inr ch"
    by (auto simp: build_graph_def Let_def simp del: build_bottlenecks.simps
             split: sum.splits prod.splits)
  from assms config x bs ch have
    "\<exists>head. model_layers net =
       L_ConvBnActivationBlock
         (ConvBnActivationBlock_init (row_in_ch c0) 3 2 (PadInt 1) 1 ''hardswish'')
       # map L_MobileNetV3Block blocks
       @ L_ConvBnActivationBlock
           (ConvBnActivationBlock_init ch 1 1 (PadStr ''same'') 1 ''hardswish'') # head"
    by (auto simp: build_graph_def Let_def simp del: build_bottlenecks.simps
             split: sum.splits prod.splits)
  with ch show ?thesis by blast
qed

text \<open>
  Claim C3. The width of the tail is 960 for a name containing \<open>large\<close> and 480 if the
  name also contains \<open>_segmentation\<close> or \<open>_detection\<close>; for a name containing \<open>small\<close>
  (and not \<open>large\<close>, which is tested first) it is 576, and 288 with one of the two
  suffixes; a name containing neither raises ValueError. The width is used as it is for
  a multiplier of at least 1 and passed through \<open>_round_to_multiple_of(width * alpha, 8)\<close>
  exactly when the multiplier is below 1.
\<close>

theorem C3_tail_width:
  "(contains ''large'' ml
      \<and> \<not> (contains ''_segmentation'' ml \<or> contains ''_detection'' ml) \<and> 1 \<le> alpha
      \<longrightarrow> last_conv_ch ml alpha = Inr 960)
 \<and> (contains ''large'' mls
      \<and> (contains ''_segmentation'' mls \<or> contains ''_detection'' mls) \<and> 1 \<le> alpha
      \<longrightarrow> last_conv_ch mls alpha = Inr 480)
 \<and> (\<not> contains ''large'' ms \<and> contains ''small'' ms
      \<and> \<not> (contains ''_segmentation'' ms \<or> contains ''_detection'' ms) \<and> 1 \<le> alpha
      \<longrightarrow> last_conv_ch ms alpha = Inr 576)
 \<and> (\<not> contains ''large'' mss \<and> contains ''small'' mss
      \<and> (contains ''_segmentation'' mss \<or> contains ''_detection'' mss) \<and> 1 \<le> alpha
      \<longrightarrow> last_conv_ch mss alpha = Inr 288)
 \<and> (\<not> contains ''large'' mo \<and> \<not> contains ''small'' mo
      \<longrightarrow> last_conv_ch mo beta = Inl (ValueError ''Invalid model type''))
 \<and> (beta < 1 \<and> last_conv_ch m 1 = Inr w
      \<longrightarrow> last_conv_ch m beta = round_to_multiple_of (of_int w * beta) 8 default_bias)"
  by (auto simp: last_conv_ch_def Let_def)

theorem C3_tail_width_witness:
  "contains ''large'' ''large'' \<and> last_conv_ch ''large'' 1 = Inr 960
 \<and> contains ''_segmentation'' ''large_segmentation''
 \<and> last_conv_ch ''large_segmentation'' 1 = Inr 480
 \<and> contains ''small'' ''small'' \<and> last_conv_ch ''small'' 1 = Inr 576
 \<and> contains ''_detection'' ''small_detection''
 \<and> last_conv_ch ''small_detection'' 1 = Inr 288
 \<and> last_conv_ch ''medium'' (1 / 2) = Inl (ValueError ''Invalid model type'')
 \<and> last_conv_ch ''small'' (1 / 2) = round_to_multiple_of (of_int 576 * (1 / 2)) 8 default_bias"
proof -
  have h: "contains ''large'' ''large''"
      "\<not> (contains ''_segmentation'' ''large'' \<or> contains ''_detection'' ''large'')"
      "contains ''large'' ''large_segmentation''"
      "contains ''_segmentation'' ''large_segmentation''"
      "\<not> contains ''large'' ''small''" "contains ''small'' ''small''"
      "\<not> (contains ''_segmentation'' ''small'' \<or> contains ''_detection'' ''small'')"
      "\<not> contains ''large'' ''small_detection''" "contains ''small'' ''small_detection''"
      "contains ''_detection'' ''small_detection''"
      "\<not> contains ''large'' ''medium''" "\<not> contains ''small'' ''medium''"
    by simp_all
  note T = C3_tail_width [where ml = "''large''" and mls = "''large_segmentation''"
      and ms = "''small''" and mss = "''small_detection''" and mo = "''medium''"
      and m = "''small''" and alpha = 1 and beta = "1 / 2" and w = 576]
  show ?thesis using T h by simp
qed

subsection \<open>Rejected configurations\<close>

text \<open>
  Claim C7. Each invalid configuration ends in an exception and no model: an unsupported
  activation tag (at the activation and for a row of the table), a squeeze-excite ratio
  that is not positive (at the module and for a row of the table), a rounding bias
  outside (0,1), a width multiplier that is not positive, \<open>num_classes\<close> of at most 1, a
  variant name that is not registered (\<open>medium\<close> among them), and a registered name that
  contains neither \<open>large\<close> nor \<open>small\<close>.
\<close>

theorem C7_invalid_configurations_rejected:
  "(name \<noteq> ''relu'' \<and> name \<noteq> ''hardswish'' \<longrightarrow> isl (activation x name))
 \<and> (r \<le> 0 \<longrightarrow> isl (SqueezeAndExcitation_init ch r))
 \<and> (\<not> (0 < b \<and> b < 1) \<longrightarrow> round_to_multiple_of v d b = Inl AssertionError)
 \<and> (a \<le> 0 \<longrightarrow>
       snd (create_mobilenet_v3 CONFIG input a n dropout mt hc) = Inl AssertionError)
 \<and> (k \<le> 1 \<longrightarrow>
       snd (create_mobilenet_v3 CONFIG input alpha k dropout mt hc) = Inl AssertionError)
 \<and> (mu \<notin> dom CONFIG \<longrightarrow>
       isl (snd (create_mobilenet_v3 CONFIG input alpha n dropout mu hc)))
 \<and> (''medium'' \<notin> dom CONFIG \<longrightarrow>
       isl (snd (create_mobilenet_v3 CONFIG input alpha n dropout ''medium'' hc)))
 \<and> (CONFIG mt = Some config
      \<and> (\<exists>c\<in>set config. row_activation c \<noteq> ''relu'' \<and> row_activation c \<noteq> ''hardswish'') \<longrightarrow>
       isl (snd (create_mobilenet_v3 CONFIG input alpha n dropout mt hc)))
 \<and> (CONFIG mt = Some config
      \<and> (\<exists>c\<in>set config. \<exists>q. row_se_ratio c = Some q \<and> q \<le> 0) \<longrightarrow>
       isl (snd (create_mobilenet_v3 CONFIG input alpha n dropout mt hc)))
 \<and> (\<not> contains ''large'' mt \<and> \<not> contains ''small'' mt \<longrightarrow>
       isl (snd (create_mobilenet_v3 CONFIG input alpha n dropout mt hc)))"
proof (intro conjI impI)
  assume "name \<noteq> ''relu'' \<and> name \<noteq> ''hardswish''"
  then show "isl (activation x name)" by (simp add: activation_def)
next
  assume "r \<le> 0"
  then show "isl (SqueezeAndExcitation_init ch r)"
    by (simp add: SqueezeAndExcitation_init_def)
next
  assume "\<not> (0 < b \<and> b < 1)"
  then show "round_to_multiple_of v d b = Inl AssertionError"
    by (simp add: round_to_multiple_of_def)
next
  assume "a \<le> 0"
  then show "snd (create_mobilenet_v3 CONFIG input a n dropout mt hc) = Inl AssertionError"
    by (simp add: create_mobilenet_v3_def)
next
  assume "k \<le> 1"
  then show "snd (create_mobilenet_v3 CONFIG input alpha k dropout mt hc) = Inl AssertionError"
    by (simp add: create_mobilenet_v3_def)
next
  assume "mu \<notin> dom CONFIG"
  then have "CONFIG mu = None" by auto
  then show "isl (snd (create_mobilenet_v3 CONFIG input alpha n dropout mu hc))"
    by (simp add: create_mobilenet_v3_def)
next
  assume "''medium'' \<notin> dom CONFIG"
  then have "CONFIG ''medium'' = None" by auto
  then show "isl (snd (create_mobilenet_v3 CONFIG input alpha n dropout ''medium'' hc))"
    by (simp add: create_mobilenet_v3_def)
next
  assume h: "CONFIG mt = Some config
      \<and> (\<exists>c\<in>set config. row_activation c \<noteq> ''relu'' \<and> row_activation c \<noteq> ''hardswish'')"
  show "isl (snd (create_mobilenet_v3 CONFIG input alpha n dropout mt hc))"
  proof (rule ccontr)
    assume "\<not> isl (snd (create_mobilenet_v3 CONFIG input alpha n dropout mt hc))"
    then obtain net where
      "snd (create_mobilenet_v3 CONFIG input alpha n dropout mt hc) = Inr net"
      by (cases "snd (create_mobilenet_v3 CONFIG input alpha n dropout mt hc)") auto
    with h have g: "build_graph (fst (scale_config alpha config)) input alpha n dropout mt hc
         = Inr net"
      by (auto dest: create_Inr)
    from h obtain c where c: "c \<in> set config"
        "row_activation c \<noteq> ''relu''" "row_activation c \<noteq> ''hardswish''" by blast
    from c(1) have "row_activation c \<in> set (map row_activation config)" by simp
    then have "row_activation c \<in> set (map row_activation (fst (scale_config alpha config)))"
      by (simp only: scale_config_fields)
    then obtain c' where "c' \<in> set (fst (scale_config alpha config))"
        "row_activation c' = row_activation c" by auto
    with build_graph_rows [OF g] c show False by metis
  qed
next
  assume h: "CONFIG mt = Some config
      \<and> (\<exists>c\<in>set config. \<exists>q. row_se_ratio c = Some q \<and> q \<le> 0)"
  show "isl (snd (create_mobilenet_v3 CONFIG input alpha n dropout mt hc))"
  proof (rule ccontr)
    assume "\<not> isl (snd (create_mobilenet_v3 CONFIG input alpha n dropout mt hc))"
    then obtain net where
      "snd (create_mobilenet_v3 CONFIG input alpha n dropout mt hc) = Inr net"
      by (cases "snd (create_mobilenet_v3 CONFIG input alpha n dropout mt hc)") auto
    with h have g: "build_graph (fst (scale_config alpha config)) input alpha n dropout mt hc
         = Inr net"
      by (auto dest: create_Inr)
    from h obtain c q where c: "c \<in> set config" "row_se_ratio c = Some q" "q \<le> 0" by blast
    from c(1) have "row_se_ratio c \<in> set (map row_se_ratio config)" by simp
    then have "row_se_ratio c \<in> set (map row_se_ratio (fst (scale_config alpha config)))"
      by (simp only: scale_config_fields)
    then obtain c' where "c' \<in> set (fst (scale_config alpha config))"
        "row_se_ratio c' = row_se_ratio c" by auto
    with build_graph_rows [OF g] c show False by force
  qed
next
  assume h: "\<not> contains ''large'' mt \<and> \<not> contains ''small'' mt"
  show "isl (snd (create_mobilenet_v3 CONFIG input alpha n dropout mt hc))"
  proof (rule ccontr)
    assume "\<not> isl (snd (create_mobilenet_v3 CONFIG input alpha n dropout mt hc))"
    then obtain net where
      "snd (create_mobilenet_v3 CONFIG input alpha n dropout mt hc) = Inr net"
      by (cases "snd (create_mobilenet_v3 CONFIG input alpha n dropout mt hc)") auto
    then obtain config0 where
      "build_graph (fst (scale_config alpha config0)) input alpha n dropout mt hc = Inr net"
      by (auto dest: create_Inr)
    with h show False by (auto dest: build_graph_variant)
  qed
qed

theorem C7_invalid_configurations_rejected_witness:
  "(''tanh'' \<noteq> ''relu'' \<and> ''tanh'' \<noteq> ''hardswish'')
   \<and> isl (activation (TInput ''input'') ''tanh'')
   \<and> (0::rat) \<le> 0 \<and> isl (SqueezeAndExcitation_init 16 0)
   \<and> \<not> (0 < (1::rat) \<and> (1::rat) < 1) \<and> round_to_multiple_of 10 8 1 = Inl AssertionError
   \<and> snd (create_mobilenet_v3 [''tiny'' \<mapsto> bad_rows] (TInput ''input'') 0 1000 (1 / 5)
            ''tiny'' True) = Inl AssertionError
   \<and> snd (create_mobilenet_v3 [''tiny'' \<mapsto> bad_rows] (TInput ''input'') 1 1 (1 / 5)
            ''tiny'' True) = Inl AssertionError
   \<and> ''small'' \<notin> dom [''tiny'' \<mapsto> bad_rows]
   \<and> isl (snd (create_mobilenet_v3 [''tiny'' \<mapsto> bad_rows] (TInput ''input'') 1 1000 (1 / 5)
            ''small'' True))
   \<and> ''medium'' \<notin> dom [''tiny'' \<mapsto> bad_rows]
   \<and> isl (snd (create_mobilenet_v3 [''tiny'' \<mapsto> bad_rows] (TInput ''input'') 1 1000 (1 / 5)
            ''medium'' True))
   \<and> [''tiny'' \<mapsto> bad_rows] ''tiny'' = Some bad_rows
   \<and> (\<exists>c\<in>set bad_rows. row_activation c \<noteq> ''relu'' \<and> row_activation c \<noteq> ''hardswish'')
   \<and> (\<exists>c\<in>set bad_rows. \<exists>q. row_se_ratio c = Some q \<and> q \<le> 0)
   \<and> \<not> contains ''large'' ''tiny'' \<and> \<not> contains ''small'' ''tiny''
   \<and> isl (snd (create_mobilenet_v3 [''tiny'' \<mapsto> bad_rows] (TInput ''input'') 1 1000 (1 / 5)
            ''tiny'' True))"
proof -
  have h1: "''tanh'' \<noteq> ''relu'' \<and> ''tanh'' \<noteq> ''hardswish''" by simp
  have h2: "''small'' \<notin> dom [''tiny'' \<mapsto> bad_rows]"
    "''medium'' \<notin> dom [''tiny'' \<mapsto> bad_rows]" by simp_all
  have h3: "[''tiny'' \<mapsto> bad_rows] ''tiny'' = Some bad_rows" by simp
  have h4: "\<exists>c\<in>set bad_rows. row_activation c \<noteq> ''relu'' \<and> row_activation c \<noteq> ''hardswish''"
    by (simp add: bad_rows_def)
  have h5: "\<exists>c\<in>set bad_rows. \<exists>q. row_se_ratio c = Some q \<and> q \<le> 0"
    by (simp add: bad_rows_def)
  have h6: "\<not> contains ''large'' ''tiny'' \<and> \<not> contains ''small'' ''tiny''" by simp
  note T = C7_invalid_configurations_rejected
    [where name = "''tanh''" and x = "TInput ''input''" and r = 0 and ch = 16
       and b = 1 and v = 10 and d = 8 and a = 0 and k = 1 and n = 1000 and alpha = 1
       and CONFIG = "[''tiny'' \<mapsto> bad_rows]" and input = "TInput ''input''"
       and dropout = "1 / 5" and mt = "''tiny''" and hc = True and mu = "''small''"
       and config = bad_rows]
  show ?thesis using T h1 h2 h3 h4 h5 h6 by simp
qed

end
